theory Spec2Isabelle
  imports Main "HOL-Library.Word"
begin

section \<open>The certificate generator of webviz-config\<close>

text \<open>
  A shallow embedding of \<^verbatim>\<open>webviz_config/certificate/_certificate_generator.py\<close>.
  The functions of the module (\<^verbatim>\<open>create_key\<close>, \<^verbatim>\<open>certificate_template\<close>,
  \<^verbatim>\<open>create_ca\<close>, \<^verbatim>\<open>create_certificate\<close>) read the clock, draw random numbers, touch
  the file system, start a process and print; all of that is a \<open>world\<close> that every
  function takes and returns. An exception is a value \<open>Inl e\<close>, returned together
  with the world as it was when the exception was raised, so that what was written
  before a failure stays written.

  The objects of the \<^verbatim>\<open>cryptography\<close> package are symbolic: a private key is its
  parameters and the random number it was made from, a certificate is its fields and
  the key that signed it, and the content of a file is the object that was serialised
  into it.
\<close>

subsection \<open>Exceptions\<close>

datatype exn =
    OSError string
  | RuntimeError string
  | ValueError
  | TypeError
  | FileExistsError
  | FileNotFoundError
  | IsADirectoryError
  | NotADirectoryError
  | PermissionError
  | CalledProcessError nat

subsection \<open>Keys, names, extensions, certificates\<close>

datatype rsa_private_key =
  RSAPrivateKey (public_exponent: nat) (key_size: nat) (key_material: nat)

datatype rsa_public_key =
  RSAPublicKey (pub_exponent: nat) (pub_key_size: nat) (pub_material: nat)

definition public_key :: "rsa_private_key \<Rightarrow> rsa_public_key" where
  "public_key k = RSAPublicKey (public_exponent k) (key_size k) (key_material k)"

datatype encoding = PEM | DER

datatype private_format = TraditionalOpenSSL | PKCS8

datatype key_serialization_encryption = NoEncryption | BestAvailableEncryption string

datatype hash_algorithm = SHA1 | SHA256

datatype name_oid =
    COUNTRY_NAME
  | LOCALITY_NAME
  | ORGANIZATION_NAME
  | COMMON_NAME
  | ORGANIZATIONAL_UNIT_NAME

type_synonym x509_name = "(name_oid \<times> string) list"

datatype general_name = DNSName string

record key_usage =
  digital_signature :: bool
  content_commitment :: bool
  key_encipherment :: bool
  data_encipherment :: bool
  key_agreement :: bool
  key_cert_sign :: bool
  crl_sign :: bool
  encipher_only :: bool
  decipher_only :: bool

text \<open>
  The key identifier of an Authority Key Identifier is a digest of the issuer's public
  key; it is kept as the public key it was derived from.
\<close>

datatype extension_type =
    SubjectAlternativeName "general_name list"
  | BasicConstraints (ca: bool) (path_length: "nat option")
  | KeyUsage key_usage
  | AuthorityKeyIdentifier (key_identifier: rsa_public_key)

definition from_issuer_public_key :: "rsa_public_key \<Rightarrow> extension_type" where
  "from_issuer_public_key pk = AuthorityKeyIdentifier pk"

record extension =
  critical :: bool
  ext_value :: extension_type

text \<open>
  Times are microseconds since the epoch, the resolution of \<^verbatim>\<open>datetime\<close>; the bounds of
  \<^verbatim>\<open>datetime\<close> (the years 1 to 9999) are not represented.
\<close>

type_synonym datetime = int

definition timedelta_days :: "int \<Rightarrow> int" where
  "timedelta_days n = n * 86400000000"

record certificate_builder =
  b_subject_name :: "x509_name option"
  b_issuer_name :: "x509_name option"
  b_public_key :: "rsa_public_key option"
  b_serial_number :: "nat option"
  b_not_valid_before :: "datetime option"
  b_not_valid_after :: "datetime option"
  b_extensions :: "extension list"

record certificate =
  subject :: x509_name
  issuer :: x509_name
  crt_public_key :: rsa_public_key
  crt_serial_number :: nat
  crt_not_valid_before :: datetime
  crt_not_valid_after :: datetime
  extensions :: "extension list"
  signed_by :: rsa_private_key
  signature_hash_algorithm :: hash_algorithm

definition CertificateBuilder :: certificate_builder where
  "CertificateBuilder =
     \<lparr>b_subject_name = None, b_issuer_name = None, b_public_key = None,
      b_serial_number = None, b_not_valid_before = None, b_not_valid_after = None,
      b_extensions = []\<rparr>"

definition subject_name :: "x509_name \<Rightarrow> certificate_builder \<Rightarrow> certificate_builder" where
  "subject_name n b = b\<lparr>b_subject_name := Some n\<rparr>"

definition issuer_name :: "x509_name \<Rightarrow> certificate_builder \<Rightarrow> certificate_builder" where
  "issuer_name n b = b\<lparr>b_issuer_name := Some n\<rparr>"

definition builder_public_key :: "rsa_public_key \<Rightarrow> certificate_builder \<Rightarrow> certificate_builder" where
  "builder_public_key pk b = b\<lparr>b_public_key := Some pk\<rparr>"

definition serial_number :: "nat \<Rightarrow> certificate_builder \<Rightarrow> certificate_builder" where
  "serial_number n b = b\<lparr>b_serial_number := Some n\<rparr>"

definition not_valid_before :: "datetime \<Rightarrow> certificate_builder \<Rightarrow> certificate_builder" where
  "not_valid_before t b = b\<lparr>b_not_valid_before := Some t\<rparr>"

definition not_valid_after :: "datetime \<Rightarrow> certificate_builder \<Rightarrow> certificate_builder" where
  "not_valid_after t b = b\<lparr>b_not_valid_after := Some t\<rparr>"

definition add_extension :: "extension_type \<Rightarrow> bool \<Rightarrow> certificate_builder \<Rightarrow> certificate_builder" where
  "add_extension e c b = b\<lparr>b_extensions := b_extensions b @ [\<lparr>critical = c, ext_value = e\<rparr>]\<rparr>"

text \<open>
  The methods of the builder set one field each. The package's checks of the values
  given to them (a field set twice, a date before 1950, a validity window that ends
  before it starts, an extension added twice) are not represented.

  Signing needs every field of the builder; the package raises \<^verbatim>\<open>ValueError\<close> for a
  missing one. The signature is the signing key and the hash algorithm.
\<close>

definition sign :: "certificate_builder \<Rightarrow> rsa_private_key \<Rightarrow> hash_algorithm \<Rightarrow> exn + certificate" where
  "sign b private_key algorithm =
     (case b_subject_name b of None \<Rightarrow> Inl ValueError | Some s \<Rightarrow>
      case b_issuer_name b of None \<Rightarrow> Inl ValueError | Some i \<Rightarrow>
      case b_public_key b of None \<Rightarrow> Inl ValueError | Some pk \<Rightarrow>
      case b_serial_number b of None \<Rightarrow> Inl ValueError | Some n \<Rightarrow>
      case b_not_valid_before b of None \<Rightarrow> Inl ValueError | Some nb \<Rightarrow>
      case b_not_valid_after b of None \<Rightarrow> Inl ValueError | Some na \<Rightarrow>
        Inr \<lparr>subject = s, issuer = i, crt_public_key = pk, crt_serial_number = n,
             crt_not_valid_before = nb, crt_not_valid_after = na,
             extensions = b_extensions b, signed_by = private_key,
             signature_hash_algorithm = algorithm\<rparr>)"

text \<open>
  Verification of a certificate's signature with a public key: the key that signed is
  the private half of that public key.
\<close>

definition verify_signature :: "rsa_public_key \<Rightarrow> certificate \<Rightarrow> bool" where
  "verify_signature pk c = (public_key (signed_by c) = pk)"

text \<open>
  Validation of a leaf against a CA certificate, by the linkage of issuer and subject
  and by the signature.
\<close>

definition validates_against :: "certificate \<Rightarrow> certificate \<Rightarrow> bool" where
  "validates_against leaf ca_crt =
     (issuer leaf = subject ca_crt \<and> verify_signature (crt_public_key ca_crt) leaf)"

subsection \<open>File contents and serialisation\<close>

datatype contents =
    PrivateKeyBytes rsa_private_key encoding private_format key_serialization_encryption
  | CertificateBytes certificate encoding
  | OtherBytes string

definition private_bytes ::
  "rsa_private_key \<Rightarrow> encoding \<Rightarrow> private_format \<Rightarrow> key_serialization_encryption \<Rightarrow> contents" where
  "private_bytes k enc fmt encryption_algorithm = PrivateKeyBytes k enc fmt encryption_algorithm"

definition public_bytes :: "certificate \<Rightarrow> encoding \<Rightarrow> contents" where
  "public_bytes c enc = CertificateBytes c enc"

text \<open>
  Loading with \<^verbatim>\<open>password=None\<close>: an encrypted key raises \<^verbatim>\<open>TypeError\<close>, anything that
  is not a PEM private key raises \<^verbatim>\<open>ValueError\<close>.
\<close>

fun load_pem_private_key :: "contents \<Rightarrow> exn + rsa_private_key" where
  "load_pem_private_key (PrivateKeyBytes k PEM fmt NoEncryption) = Inr k"
| "load_pem_private_key (PrivateKeyBytes k PEM fmt (BestAvailableEncryption pw)) = Inl TypeError"
| "load_pem_private_key other = Inl ValueError"

fun load_pem_x509_certificate :: "contents \<Rightarrow> exn + certificate" where
  "load_pem_x509_certificate (CertificateBytes c PEM) = Inr c"
| "load_pem_x509_certificate other = Inl ValueError"

subsection \<open>The file system\<close>

text \<open>
  A tree of directories and regular files; a path is the list of its components from
  the root. The errors are those that the shape of the tree decides; permissions and
  the capacity of the disk are not part of the model.
\<close>

type_synonym path = "string list"

datatype node = File contents | Dir "string \<Rightarrow> node option"

fun lookup :: "node \<Rightarrow> path \<Rightarrow> node option" where
  "lookup n [] = Some n"
| "lookup (File c) (x # xs) = None"
| "lookup (Dir m) (x # xs) = (case m x of None \<Rightarrow> None | Some n \<Rightarrow> lookup n xs)"

definition is_file :: "node \<Rightarrow> path \<Rightarrow> bool" where
  "is_file root p = (case lookup root p of Some (File c) \<Rightarrow> True | _ \<Rightarrow> False)"

definition is_dir :: "node \<Rightarrow> path \<Rightarrow> bool" where
  "is_dir root p = (case lookup root p of Some (Dir m) \<Rightarrow> True | _ \<Rightarrow> False)"

text \<open>\<^verbatim>\<open>open(path, "rb").read()\<close>\<close>

fun read_file :: "node \<Rightarrow> path \<Rightarrow> exn + contents" where
  "read_file (File c) [] = Inr c"
| "read_file (Dir m) [] = Inl IsADirectoryError"
| "read_file (File c) (x # xs) = Inl NotADirectoryError"
| "read_file (Dir m) (x # xs) =
     (case m x of None \<Rightarrow> Inl FileNotFoundError | Some n \<Rightarrow> read_file n xs)"

text \<open>
  \<^verbatim>\<open>open(path, "wb")\<close> followed by one \<^verbatim>\<open>write\<close>: an existing regular file is replaced, a
  missing one is created in an existing directory.
\<close>

fun write_file :: "node \<Rightarrow> path \<Rightarrow> contents \<Rightarrow> exn + node" where
  "write_file (File c) [] d = Inr (File d)"
| "write_file (Dir m) [] d = Inl IsADirectoryError"
| "write_file (File c) (x # xs) d = Inl NotADirectoryError"
| "write_file (Dir m) (x # xs) d =
     (case m x of
        None \<Rightarrow> (if xs = [] then Inr (Dir (m(x \<mapsto> File d))) else Inl FileNotFoundError)
      | Some n \<Rightarrow>
          (case write_file n xs d of
             Inl e \<Rightarrow> Inl e
           | Inr n' \<Rightarrow> Inr (Dir (m(x \<mapsto> n')))))"

text \<open>
  \<^verbatim>\<open>Path.mkdir(parents=True, exist_ok=True)\<close>: missing directories are created along
  the path, an existing directory is left alone, a regular file in the way is an
  error.
\<close>

fun mkdir :: "node \<Rightarrow> path \<Rightarrow> exn + node" where
  "mkdir (Dir m) [] = Inr (Dir m)"
| "mkdir (File c) [] = Inl FileExistsError"
| "mkdir (File c) (x # xs) = Inl NotADirectoryError"
| "mkdir (Dir m) (x # xs) =
     (case mkdir (case m x of None \<Rightarrow> Dir (\<lambda>y. None) | Some n \<Rightarrow> n) xs of
        Inl e \<Rightarrow> Inl e
      | Inr n' \<Rightarrow> Inr (Dir (m(x \<mapsto> n'))))"

text \<open>The text of a path, as \<^verbatim>\<open>str\<close> gives it for an absolute POSIX path.\<close>

definition path_str :: "path \<Rightarrow> string" where
  "path_str p = (if p = [] then ''/'' else concat (map (\<lambda>c. ''/'' @ c) p))"

subsection \<open>The world\<close>

datatype outcome = Returned nat | Raised exn

record world =
  fs :: node
  clock :: "nat \<Rightarrow> datetime"
  ticks :: nat
  entropy :: "nat \<Rightarrow> nat"
  draws :: nat
  subprocess :: "string list \<Rightarrow> outcome"
  spawned :: "string list list"
  stdout :: "string list"

text \<open>
  \<open>clock w n\<close> is what the \<open>n\<close>-th reading of the clock returns and \<open>entropy w n\<close> the
  \<open>n\<close>-th random number drawn; \<open>subprocess w argv\<close> is what starting \<open>argv\<close> leads
  to, an exit code or an exception of the launch.
\<close>

definition utcnow :: "world \<Rightarrow> datetime \<times> world" where
  "utcnow w = (clock w (ticks w), w\<lparr>ticks := Suc (ticks w)\<rparr>)"

definition urandom :: "world \<Rightarrow> nat \<times> world" where
  "urandom w = (entropy w (draws w), w\<lparr>draws := Suc (draws w)\<rparr>)"

definition random_serial_number :: "world \<Rightarrow> nat \<times> world" where
  "random_serial_number w = urandom w"

definition generate_private_key :: "nat \<Rightarrow> nat \<Rightarrow> world \<Rightarrow> rsa_private_key \<times> world" where
  "generate_private_key e bits w = (case urandom w of (r, w') \<Rightarrow> (RSAPrivateKey e bits r, w'))"

definition open_wb_write :: "path \<Rightarrow> contents \<Rightarrow> world \<Rightarrow> (exn + unit) \<times> world" where
  "open_wb_write p d w =
     (case write_file (fs w) p d of
        Inl e \<Rightarrow> (Inl e, w)
      | Inr root \<Rightarrow> (Inr (), w\<lparr>fs := root\<rparr>))"

definition mkdir_parents_exist_ok :: "path \<Rightarrow> world \<Rightarrow> (exn + unit) \<times> world" where
  "mkdir_parents_exist_ok p w =
     (case mkdir (fs w) p of
        Inl e \<Rightarrow> (Inl e, w)
      | Inr root \<Rightarrow> (Inr (), w\<lparr>fs := root\<rparr>))"

definition print :: "string \<Rightarrow> world \<Rightarrow> world" where
  "print s w = w\<lparr>stdout := stdout w @ [s]\<rparr>"

text \<open>\<^verbatim>\<open>subprocess.run(argv, check=True)\<close>\<close>

definition subprocess_run_check :: "string list \<Rightarrow> world \<Rightarrow> (exn + unit) \<times> world" where
  "subprocess_run_check argv w =
     (let w' = w\<lparr>spawned := spawned w @ [argv]\<rparr> in
      case subprocess w argv of
        Raised e \<Rightarrow> (Inl e, w')
      | Returned rc \<Rightarrow> (if rc = 0 then (Inr (), w') else (Inl (CalledProcessError rc), w')))"

subsection \<open>Strings\<close>

type_synonym byte = "8 word"

definition hex_digit :: "nat \<Rightarrow> char" where
  "hex_digit n = ''0123456789abcdef'' ! n"

text \<open>\<^verbatim>\<open>bytes.hex()\<close>\<close>

definition hex :: "byte list \<Rightarrow> string" where
  "hex bs = concat (map (\<lambda>b. [hex_digit (unat b div 16), hex_digit (unat b mod 16)]) bs)"

text \<open>\<^verbatim>\<open>str.upper()\<close>, on the letters of ASCII.\<close>

definition upper_char :: "char \<Rightarrow> char" where
  "upper_char c =
     (case map_of (zip ''abcdefghijklmnopqrstuvwxyz'' ''ABCDEFGHIJKLMNOPQRSTUVWXYZ'') c of
        None \<Rightarrow> c
      | Some u \<Rightarrow> u)"

definition upper :: "string \<Rightarrow> string" where
  "upper s = map upper_char s"

text \<open>\<^verbatim>\<open>sep.join(xs)\<close>\<close>

fun join :: "string \<Rightarrow> string list \<Rightarrow> string" where
  "join sep [] = []"
| "join sep [x] = x"
| "join sep (x # y # ys) = x @ sep @ join sep (y # ys)"

text \<open>
  \<^verbatim>\<open>re.findall(".{8,8}", s)\<close>: from left to right, the matches of eight characters none
  of which is a newline, without overlap; where no match starts the scan moves on by
  one character.
\<close>

function re_findall_8 :: "string \<Rightarrow> string list" where
  "re_findall_8 s =
     (if length s < 8 then []
      else if CHR 0x0A \<notin> set (take 8 s) then take 8 s # re_findall_8 (drop 8 s)
      else re_findall_8 (tl s))"
  by pat_completeness auto
termination
  by (relation "measure length") auto

declare re_findall_8.simps [simp del]

subsection \<open>The module\<close>

text \<open>
  What the module takes from outside the file: the user data directory
  (\<^verbatim>\<open>user_data_dir()\<close>), the name of the user (\<^verbatim>\<open>getpass.getuser()\<close>), the home
  directory, the escape sequences of \<^verbatim>\<open>terminal_colors\<close>, and the digest that
  \<^verbatim>\<open>Certificate.fingerprint\<close> computes.
\<close>

record config =
  user_data_dir :: path
  getuser :: string
  home :: path
  GREEN :: string
  BOLD :: string
  END :: string
  RED :: string
  BLUE :: string
  fingerprint :: "certificate \<Rightarrow> hash_algorithm \<Rightarrow> byte list"

record args =
  force :: bool
  auto_install :: bool

definition NAME :: "config \<Rightarrow> x509_name" where
  "NAME cfg =
     [(COUNTRY_NAME, ''NO''),
      (LOCALITY_NAME, ''Trondheim''),
      (ORGANIZATION_NAME, ''Webviz''),
      (COMMON_NAME, getuser cfg),
      (ORGANIZATIONAL_UNIT_NAME, ''Webviz'')]"

definition CA_KEY_FILENAME :: string where
  "CA_KEY_FILENAME = ''ca.key''"

definition CA_CRT_FILENAME :: string where
  "CA_CRT_FILENAME = ''ca.crt''"

definition SERVER_KEY_FILENAME :: string where
  "SERVER_KEY_FILENAME = ''server.key''"

definition SERVER_CRT_FILENAME :: string where
  "SERVER_CRT_FILENAME = ''server.crt''"

definition create_key :: "path \<Rightarrow> world \<Rightarrow> (exn + rsa_private_key) \<times> world" where
  "create_key key_path w0 =
     (case generate_private_key 65537 2048 w0 of (key, w1) \<Rightarrow>
      case open_wb_write key_path (private_bytes key PEM TraditionalOpenSSL NoEncryption) w1 of
        (Inl e, w2) \<Rightarrow> (Inl e, w2)
      | (Inr u, w2) \<Rightarrow> (Inr key, w2))"

definition certificate_template ::
  "x509_name \<Rightarrow> x509_name \<Rightarrow> rsa_public_key \<Rightarrow> bool \<Rightarrow> world \<Rightarrow> certificate_builder \<times> world" where
  "certificate_template subj iss pk certauthority w0 =
     (case utcnow w0 of (now_a, w1) \<Rightarrow>
      let not_valid_after_time =
            (if certauthority then now_a + timedelta_days (365 * 10)
             else now_a + timedelta_days 7) in
      case random_serial_number w1 of (serial, w2) \<Rightarrow>
      case utcnow w2 of (now_b, w3) \<Rightarrow>
      (add_extension (BasicConstraints certauthority None) True
        (add_extension (SubjectAlternativeName [DNSName ''localhost'']) True
          (not_valid_after not_valid_after_time
            (not_valid_before now_b
              (serial_number serial
                (builder_public_key pk
                  (issuer_name iss
                    (subject_name subj CertificateBuilder))))))),
       w3))"

text \<open>
  The fingerprint as \<^verbatim>\<open>create_ca\<close> shows it:
  \<^verbatim>\<open>"-".join(re.findall(".{8,8}", digest.hex())).upper()\<close>
\<close>

definition sha1_text :: "byte list \<Rightarrow> string" where
  "sha1_text digest = upper (join ''-'' (re_findall_8 (hex digest)))"

definition already_exists_message :: "path \<Rightarrow> string" where
  "already_exists_message ca_crt_path =
     ''The file '' @ path_str ca_crt_path @ '' already exists. Add the '' @
     ''command line flag --force if you want to overwrite''"

definition ca_not_found_message :: string where
  \<open>ca_not_found_message =
     ''Could not find CA key and certificate. Please '' @
     ''run the command "webviz certificate --auto-install" and '' @
     ''try again''\<close>

definition certutil_argv :: "config \<Rightarrow> path \<Rightarrow> string list" where
  "certutil_argv cfg ca_crt_path =
     [''certutil'',
      ''-d'',
      ''sql:'' @ path_str (home cfg @ [''.pki'', ''nssdb'']),
      ''-A'',
      ''-t'',
      ''CT,C,c'',
      ''-n'',
      ''webviz'',
      ''-i'',
      path_str ca_crt_path]"

definition installed_message :: "config \<Rightarrow> string" where
  "installed_message cfg =
     GREEN cfg @ BOLD cfg @
     ''Successfully installed webviz certificate. '' @
     ''Ready to browse applications on localhost.'' @
     END cfg"

definition install_failed_message :: "config \<Rightarrow> string" where
  "install_failed_message cfg =
     RED cfg @
     ''Automatic installation of webviz certificate failed. '' @
     ''Falling back to manual installation.'' @
     END cfg"

text \<open>The instructions for a manual installation, with the directory and the fingerprint.\<close>

definition manual_instructions :: "config \<Rightarrow> path \<Rightarrow> string \<Rightarrow> string" where
  \<open>manual_instructions cfg directory sha1 =
     BLUE cfg @ BOLD cfg @ ''\<newline>'' @
     '' Created CA key and certificate files (both saved in '' @ path_str directory @ '').\<newline>'' @
     '' Keep the key file ('' @ CA_KEY_FILENAME @ '') private. The certificate file\<newline>'' @
     '' ('' @ CA_CRT_FILENAME @ '') is not sensitive, and you can import it in\<newline>'' @
     '' your browser(s).\<newline>'' @
     ''\<newline>'' @
     '' To install it in Chrome:\<newline>'' @
     ''\<newline>'' @
     ''    - Open Chrome and go to chrome://settings/privacy\<newline>'' @
     ''    - Select "Manage certificates"\<newline>'' @
     ''    - Under the tab "Trusted Root Certificatation Authorities", click "Import"\<newline>'' @
     ''    - Go to '' @ path_str directory @ '' and select the created certificate ('' @ CA_CRT_FILENAME @ '').\<newline>'' @
     ''    - Click "Next" and select "Place all certificates in the following store"\<newline>'' @
     ''    - Click "Next" and then "Finished"\<newline>'' @
     ''    - If a dialog box appears, you can verify that the displayed thumbprint is\<newline>'' @
     ''      the same as this one:\<newline>'' @
     ''       '' @ sha1 @ ''\<newline>'' @
     ''    - Restart Chrome\<newline>'' @
     ''\<newline>'' @
     '' When done, you do not have to rerun "webviz certificate" or do this procedure\<newline>'' @
     '' before the certificate expiry date has passed. The certificate is only valid\<newline>'' @
     '' for localhost.'' @ END cfg\<close>

text \<open>
  The handler \<^verbatim>\<open>except (PermissionError, subprocess.CalledProcessError)\<close> takes these
  exceptions and no other.
\<close>

fun caught_by_install_handler :: "exn \<Rightarrow> bool" where
  "caught_by_install_handler PermissionError = True"
| "caught_by_install_handler (CalledProcessError rc) = True"
| "caught_by_install_handler e = False"

definition create_ca :: "config \<Rightarrow> args \<Rightarrow> world \<Rightarrow> (exn + unit) \<times> world" where
  "create_ca cfg args w0 =
     (let directory = user_data_dir cfg in
      case mkdir_parents_exist_ok directory w0 of
        (Inl e, w1) \<Rightarrow> (Inl e, w1)
      | (Inr u1, w1) \<Rightarrow>
      let ca_key_path = directory @ [CA_KEY_FILENAME];
          ca_crt_path = directory @ [CA_CRT_FILENAME] in
      if \<not> force args \<and> is_file (fs w1) ca_crt_path
      then (Inl (OSError (already_exists_message ca_crt_path)), w1)
      else
      case create_key ca_key_path w1 of
        (Inl e, w2) \<Rightarrow> (Inl e, w2)
      | (Inr key, w2) \<Rightarrow>
      let subj = NAME cfg; iss = NAME cfg in
      case certificate_template subj iss (public_key key) True w2 of (template, w3) \<Rightarrow>
      case sign template key SHA256 of
        Inl e \<Rightarrow> (Inl e, w3)
      | Inr cert \<Rightarrow>
      case open_wb_write ca_crt_path (public_bytes cert PEM) w3 of
        (Inl e, w4) \<Rightarrow> (Inl e, w4)
      | (Inr u4, w4) \<Rightarrow>
      let sha1 = sha1_text (fingerprint cfg cert SHA1) in
      case (if auto_install args
            then (case subprocess_run_check (certutil_argv cfg ca_crt_path) w4 of
                    (Inr u5, w5) \<Rightarrow> (Inr True, print (installed_message cfg) w5)
                  | (Inl e, w5) \<Rightarrow>
                      (if caught_by_install_handler e
                       then (Inr False, print (install_failed_message cfg) w5)
                       else (Inl e, w5)))
            else (Inr False, w4)) of
        (Inl e, w6) \<Rightarrow> (Inl e, w6)
      | (Inr installed, w6) \<Rightarrow>
      if \<not> installed
      then (Inr (), print (manual_instructions cfg directory sha1) w6)
      else (Inr (), w6))"

definition create_certificate :: "config \<Rightarrow> path \<Rightarrow> world \<Rightarrow> (exn + unit) \<times> world" where
  "create_certificate cfg directory w0 =
     (let ca_directory = user_data_dir cfg;
          ca_key_path = ca_directory @ [CA_KEY_FILENAME];
          ca_crt_path = ca_directory @ [CA_CRT_FILENAME];
          server_key_path = directory @ [SERVER_KEY_FILENAME];
          server_crt_path = directory @ [SERVER_CRT_FILENAME] in
      if \<not> is_file (fs w0) ca_key_path \<or> \<not> is_file (fs w0) ca_crt_path
      then (Inl (RuntimeError ca_not_found_message), w0)
      else
      case read_file (fs w0) ca_key_path of
        Inl e \<Rightarrow> (Inl e, w0)
      | Inr key_data \<Rightarrow>
      case load_pem_private_key key_data of
        Inl e \<Rightarrow> (Inl e, w0)
      | Inr ca_key \<Rightarrow>
      case read_file (fs w0) ca_crt_path of
        Inl e \<Rightarrow> (Inl e, w0)
      | Inr crt_data \<Rightarrow>
      case load_pem_x509_certificate crt_data of
        Inl e \<Rightarrow> (Inl e, w0)
      | Inr ca_crt \<Rightarrow>
      case create_key server_key_path w0 of
        (Inl e, w1) \<Rightarrow> (Inl e, w1)
      | (Inr server_key, w1) \<Rightarrow>
      case certificate_template (NAME cfg) (subject ca_crt) (public_key server_key) False w1 of
        (template, w2) \<Rightarrow>
      case sign
             (add_extension (from_issuer_public_key (public_key ca_key)) False
               (add_extension
                 (KeyUsage
                   \<lparr>digital_signature = True,
                    content_commitment = True,
                    key_encipherment = True,
                    data_encipherment = False,
                    key_agreement = False,
                    key_cert_sign = False,
                    crl_sign = False,
                    encipher_only = False,
                    decipher_only = False\<rparr>)
                 True template))
             ca_key SHA256 of
        Inl e \<Rightarrow> (Inl e, w2)
      | Inr crt \<Rightarrow>
      open_wb_write server_crt_path (public_bytes crt PEM) w2)"

subsection \<open>Example worlds\<close>

text \<open>Concrete inputs on which the theorems below are exercised.\<close>

definition example_digest :: "byte list" where
  "example_digest =
     [0xDE, 0xAD, 0xBE, 0xEF, 0x01, 0x23, 0x45, 0x67, 0x89, 0xAB,
      0xCD, 0xEF, 0x00, 0x11, 0x22, 0x33, 0x44, 0x55, 0x66, 0x77]"

definition example_config :: config where
  "example_config =
     \<lparr>user_data_dir = [''data'', ''webviz''],
      getuser = ''alice'',
      home = [''home'', ''alice''],
      GREEN = ''<green>'',
      BOLD = ''<bold>'',
      END = ''<end>'',
      RED = ''<red>'',
      BLUE = ''<blue>'',
      fingerprint = (\<lambda>c alg. case alg of SHA1 \<Rightarrow> example_digest | SHA256 \<Rightarrow> replicate 32 0)\<rparr>"

definition world_on :: "node \<Rightarrow> world" where
  "world_on root =
     \<lparr>fs = root,
      clock = (\<lambda>n. 1793800000000000 + 250 * int n),
      ticks = 0,
      entropy = (\<lambda>n. 1000 + n),
      draws = 0,
      subprocess = (\<lambda>argv. Returned 1),
      spawned = [],
      stdout = []\<rparr>"

definition example_ca_key :: rsa_private_key where
  "example_ca_key = RSAPrivateKey 65537 2048 1000"

definition other_ca_key :: rsa_private_key where
  "other_ca_key = RSAPrivateKey 65537 2048 2000"

definition example_ca_crt :: certificate where
  "example_ca_crt =
     \<lparr>subject = NAME example_config,
      issuer = NAME example_config,
      crt_public_key = public_key example_ca_key,
      crt_serial_number = 1001,
      crt_not_valid_before = 1793800000000250,
      crt_not_valid_after = 1793800000000000 + timedelta_days 3650,
      extensions =
        [\<lparr>critical = True, ext_value = SubjectAlternativeName [DNSName ''localhost'']\<rparr>,
         \<lparr>critical = True, ext_value = BasicConstraints True None\<rparr>],
      signed_by = example_ca_key,
      signature_hash_algorithm = SHA256\<rparr>"

text \<open>A disk with no user data directory, and an empty directory \<^verbatim>\<open>/srv\<close>.\<close>

definition fresh_disk :: node where
  "fresh_disk = Dir [''srv'' \<mapsto> Dir (\<lambda>x. None)]"

text \<open>A disk with the CA that \<open>create_ca\<close> leaves on the fresh disk.\<close>

definition ca_disk :: node where
  "ca_disk =
     Dir [''srv'' \<mapsto> Dir (\<lambda>x. None),
          ''data'' \<mapsto> Dir [''webviz'' \<mapsto>
            Dir [''ca.key'' \<mapsto> File (PrivateKeyBytes example_ca_key PEM TraditionalOpenSSL NoEncryption),
                 ''ca.crt'' \<mapsto> File (CertificateBytes example_ca_crt PEM)]]]"

text \<open>A disk with a CA key and no CA certificate.\<close>

definition half_ca_disk :: node where
  "half_ca_disk =
     Dir [''srv'' \<mapsto> Dir (\<lambda>x. None),
          ''data'' \<mapsto> Dir [''webviz'' \<mapsto>
            Dir [''ca.key'' \<mapsto> File (PrivateKeyBytes other_ca_key PEM TraditionalOpenSSL NoEncryption)]]]"

text \<open>A disk whose CA key is not the key of the CA certificate beside it.\<close>

definition mismatched_ca_disk :: node where
  "mismatched_ca_disk =
     Dir [''srv'' \<mapsto> Dir (\<lambda>x. None),
          ''data'' \<mapsto> Dir [''webviz'' \<mapsto>
            Dir [''ca.key'' \<mapsto> File (PrivateKeyBytes other_ca_key PEM TraditionalOpenSSL NoEncryption),
                 ''ca.crt'' \<mapsto> File (CertificateBytes example_ca_crt PEM)]]]"

text \<open>The example world as a run of \<open>create_ca\<close> leaves its clock and its random source.\<close>

definition later_world_on :: "node \<Rightarrow> world" where
  "later_world_on root = (world_on root)\<lparr>ticks := 2, draws := 2\<rparr>"

text \<open>The extensions of a server certificate issued under the CA key \<open>ca_key\<close>.\<close>

definition leaf_extensions :: "rsa_private_key \<Rightarrow> extension list" where
  "leaf_extensions ca_key =
     [\<lparr>critical = True, ext_value = SubjectAlternativeName [DNSName ''localhost'']\<rparr>,
      \<lparr>critical = True, ext_value = BasicConstraints False None\<rparr>,
      \<lparr>critical = True,
       ext_value = KeyUsage
         \<lparr>digital_signature = True,
          content_commitment = True,
          key_encipherment = True,
          data_encipherment = False,
          key_agreement = False,
          key_cert_sign = False,
          crl_sign = False,
          encipher_only = False,
          decipher_only = False\<rparr>\<rparr>,
      \<lparr>critical = False, ext_value = AuthorityKeyIdentifier (public_key ca_key)\<rparr>]"

text \<open>
  The server certificate that \<open>create_certificate\<close> issues in the later example world
  when the CA key on the disk is \<open>ca_key\<close> and the CA certificate is the example one.
\<close>

definition example_leaf :: "rsa_private_key \<Rightarrow> certificate" where
  "example_leaf ca_key =
     \<lparr>subject = NAME example_config,
      issuer = NAME example_config,
      crt_public_key = RSAPublicKey 65537 2048 1002,
      crt_serial_number = 1003,
      crt_not_valid_before = 1793800000000750,
      crt_not_valid_after = 1793800000000500 + timedelta_days 7,
      extensions = leaf_extensions ca_key,
      signed_by = ca_key,
      signature_hash_algorithm = SHA256\<rparr>"

text \<open>The example world on a machine where the trust-store tool is not installed.\<close>

definition world_without_tool :: "node \<Rightarrow> world" where
  "world_without_tool root = (world_on root)\<lparr>subprocess := (\<lambda>argv. Raised FileNotFoundError)\<rparr>"

section \<open>Properties of the file system\<close>

lemma lookup_append:
  "lookup n (p @ q) = (case lookup n p of None \<Rightarrow> None | Some n' \<Rightarrow> lookup n' q)"
  by (induction n p rule: lookup.induct) (auto split: option.splits)

lemma lookup_snoc_parent:
  "lookup n (d @ [f]) = Some x \<Longrightarrow> is_dir n d"
  by (induction n d rule: lookup.induct)
     (auto simp: is_dir_def split: option.splits node.splits)

lemma is_file_parent_is_dir: "is_file n (d @ [f]) \<Longrightarrow> is_dir n d"
  by (auto simp: is_file_def split: option.splits dest: lookup_snoc_parent)

lemma mkdir_existing: "is_dir n p \<Longrightarrow> mkdir n p = Inr n"
proof (induction n p rule: mkdir.induct)
  case (4 m x xs)
  then show ?case
    by (cases "m x") (auto simp: is_dir_def map_upd_triv)
qed (auto simp: is_dir_def)

lemma write_file_lookup:
  "write_file n p c = Inr n' \<Longrightarrow> lookup n' p = Some (File c)"
  by (induction n p c arbitrary: n' rule: write_file.induct)
     (auto split: option.splits sum.splits if_splits)

lemma write_file_other_files:
  "write_file n p c = Inr n' \<Longrightarrow> q \<noteq> p \<Longrightarrow>
   (lookup n' q = Some (File d)) = (lookup n q = Some (File d))"
proof (induction n p c arbitrary: n' q rule: write_file.induct)
  case (1 c0 d0)
  then show ?case by (cases q) auto
next
  case (4 m x xs d0)
  show ?case
  proof (cases "m x")
    case None
    with "4.prems"(1) have xs: "xs = []" and n': "n' = Dir (m(x \<mapsto> File d0))"
      by (auto split: if_splits)
    show ?thesis
    proof (cases q)
      case Nil
      then show ?thesis using n' by simp
    next
      case (Cons y ys)
      then show ?thesis using None xs n' "4.prems"(2) by (cases ys) auto
    qed
  next
    case (Some n0)
    with "4.prems"(1) obtain n1 where w: "write_file n0 xs d0 = Inr n1"
      and n': "n' = Dir (m(x \<mapsto> n1))"
      by (auto split: sum.splits)
    show ?thesis
    proof (cases q)
      case Nil
      then show ?thesis using n' by simp
    next
      case (Cons y ys)
      show ?thesis
      proof (cases "y = x")
        case True
        with Cons "4.prems"(2) have "ys \<noteq> xs" by simp
        from "4.IH"[OF Some w this] show ?thesis using Cons True Some n' by simp
      next
        case False
        then show ?thesis using Cons n' by simp
      qed
    qed
  qed
qed auto


lemma write_file_succeeds:
  "is_file n p \<or> (p \<noteq> [] \<and> is_dir n (butlast p) \<and> lookup n p = None) \<Longrightarrow>
   \<exists>n'. write_file n p c = Inr n'"
proof (induction n p c rule: write_file.induct)
  case (4 m x xs d0)
  show ?case
  proof (cases "m x")
    case None
    with 4 show ?thesis
      by (cases xs) (auto simp: is_file_def is_dir_def split: option.splits)
  next
    case (Some n0)
    with "4.prems" have "is_file n0 xs \<or> (xs \<noteq> [] \<and> is_dir n0 (butlast xs) \<and> lookup n0 xs = None)"
      by (cases xs) (auto simp: is_file_def is_dir_def split: if_splits)
    from "4.IH"[OF Some this] Some show ?thesis by auto
  qed
qed (auto simp: is_file_def is_dir_def split: if_splits)


lemma read_file_lookup: "(read_file n p = Inr c) = (lookup n p = Some (File c))"
  by (induction n p rule: read_file.induct) (auto split: option.splits)

lemma create_key_eq:
  "create_key p w =
     (case write_file (fs w) p
             (PrivateKeyBytes (RSAPrivateKey 65537 2048 (entropy w (draws w))) PEM TraditionalOpenSSL NoEncryption) of
        Inl e \<Rightarrow> (Inl e, w\<lparr>draws := Suc (draws w)\<rparr>)
      | Inr root \<Rightarrow>
          (Inr (RSAPrivateKey 65537 2048 (entropy w (draws w))),
           w\<lparr>draws := Suc (draws w), fs := root\<rparr>))"
  by (simp add: create_key_def generate_private_key_def urandom_def open_wb_write_def
      private_bytes_def split: sum.splits)

lemma certificate_template_eq:
  "certificate_template subj iss pk certauthority w =
     (\<lparr>b_subject_name = Some subj, b_issuer_name = Some iss, b_public_key = Some pk,
       b_serial_number = Some (entropy w (draws w)),
       b_not_valid_before = Some (clock w (Suc (ticks w))),
       b_not_valid_after =
         Some (clock w (ticks w) + timedelta_days (if certauthority then 365 * 10 else 7)),
       b_extensions =
         [\<lparr>critical = True, ext_value = SubjectAlternativeName [DNSName ''localhost'']\<rparr>,
          \<lparr>critical = True, ext_value = BasicConstraints certauthority None\<rparr>]\<rparr>,
      w\<lparr>ticks := Suc (Suc (ticks w)), draws := Suc (draws w)\<rparr>)"
  by (simp add: certificate_template_def utcnow_def random_serial_number_def urandom_def
      add_extension_def not_valid_after_def not_valid_before_def serial_number_def
      builder_public_key_def issuer_name_def subject_name_def CertificateBuilder_def)


lemma is_file_not_dir: "is_file n p \<Longrightarrow> \<not> is_dir n p"
  by (auto simp: is_file_def is_dir_def split: option.splits node.splits)

lemma sign_template:
  "sign \<lparr>b_subject_name = Some s, b_issuer_name = Some i, b_public_key = Some pk,
         b_serial_number = Some n, b_not_valid_before = Some nb, b_not_valid_after = Some na,
         b_extensions = es\<rparr> k alg =
   Inr \<lparr>subject = s, issuer = i, crt_public_key = pk, crt_serial_number = n,
        crt_not_valid_before = nb, crt_not_valid_after = na, extensions = es,
        signed_by = k, signature_hash_algorithm = alg\<rparr>"
  by (simp add: sign_def)

section \<open>Properties of the fingerprint text\<close>

lemma hex_length: "length (hex d) = 2 * length d"
  by (induction d) (auto simp: hex_def)

lemma hex_digit_in: "n < 16 \<Longrightarrow> hex_digit n \<in> set ''0123456789abcdef''"
  unfolding hex_digit_def by (rule nth_mem) simp

lemma hex_Cons:
  "hex (b # bs) = hex_digit (unat b div 16) # hex_digit (unat b mod 16) # hex bs"
  by (simp add: hex_def)

lemma hex_chars: "c \<in> set (hex d) \<Longrightarrow> c \<in> set ''0123456789abcdef''"
proof (induction d)
  case Nil
  then show ?case by (simp add: hex_def)
next
  case (Cons b bs)
  define H where "H = set ''0123456789abcdef''"
  have "unat b < 256" using unsigned_less[of b] by simp
  then have "unat b div 16 < 16" by simp
  then have hi: "hex_digit (unat b div 16) \<in> H"
    unfolding H_def by (rule hex_digit_in)
  have lo: "hex_digit (unat b mod 16) \<in> H"
    unfolding H_def by (rule hex_digit_in) simp
  from Cons.prems have "c = hex_digit (unat b div 16) \<or> c = hex_digit (unat b mod 16) \<or> c \<in> set (hex bs)"
    unfolding hex_Cons by auto
  with hi lo Cons.IH show ?case unfolding H_def by blast
qed

lemma upper_hyphen: "upper ''-'' = ''-''"
  by (simp add: upper_def upper_char_def)

lemma re_findall_8_short: "length s < 8 \<Longrightarrow> re_findall_8 s = []"
  by (subst re_findall_8.simps) simp

lemma re_findall_8_step:
  "8 \<le> length s \<Longrightarrow> CHR 0x0A \<notin> set s \<Longrightarrow> re_findall_8 s = take 8 s # re_findall_8 (drop 8 s)"
  using in_set_takeD[of "CHR 0x0A" 8 s] by (subst re_findall_8.simps) auto

lemma re_findall_8_forty:
  assumes "length s = 40" and "CHR 0x0A \<notin> set s"
  shows "re_findall_8 s =
    [take 8 s, take 8 (drop 8 s), take 8 (drop 16 s), take 8 (drop 24 s), take 8 (drop 32 s)]"
proof -
  have nl: "CHR 0x0A \<notin> set (drop n s)" for n
    using assms(2) in_set_dropD by fastforce
  have 1: "re_findall_8 s = take 8 s # re_findall_8 (drop 8 s)"
    using assms by (intro re_findall_8_step) auto
  have 2: "re_findall_8 (drop 8 s) = take 8 (drop 8 s) # re_findall_8 (drop 16 s)"
    using assms(1) nl[of 8] re_findall_8_step[of "drop 8 s"] by simp
  have 3: "re_findall_8 (drop 16 s) = take 8 (drop 16 s) # re_findall_8 (drop 24 s)"
    using assms(1) nl[of 16] re_findall_8_step[of "drop 16 s"] by simp
  have 4: "re_findall_8 (drop 24 s) = take 8 (drop 24 s) # re_findall_8 (drop 32 s)"
    using assms(1) nl[of 24] re_findall_8_step[of "drop 24 s"] by simp
  have 5: "re_findall_8 (drop 32 s) = take 8 (drop 32 s) # re_findall_8 (drop 40 s)"
    using assms(1) nl[of 32] re_findall_8_step[of "drop 32 s"] by simp
  have 6: "re_findall_8 (drop 40 s) = []"
    using assms(1) by (intro re_findall_8_short) simp
  show ?thesis by (simp only: 1 2 3 4 5 6)
qed

lemma sha1_text_groups:
  assumes "length d = 20"
  shows "sha1_text d =
           upper (take 8 (hex d)) @ ''-'' @ upper (take 8 (drop 8 (hex d))) @ ''-'' @
           upper (take 8 (drop 16 (hex d))) @ ''-'' @ upper (take 8 (drop 24 (hex d))) @ ''-'' @
           upper (take 8 (drop 32 (hex d)))"
proof -
  have len: "length (hex d) = 40" using assms by (simp add: hex_length)
  have "CHR 0x0A \<notin> set ''0123456789abcdef''" by simp
  then have nl: "CHR 0x0A \<notin> set (hex d)" using hex_chars by blast
  have up: "upper (a @ b) = upper a @ upper b" for a b by (simp add: upper_def)
  show ?thesis
    unfolding sha1_text_def re_findall_8_forty[OF len nl]
    by (simp only: join.simps up upper_hyphen append_assoc)
qed

lemma upper_hex_char:
  assumes "c \<in> set ''0123456789abcdef''"
  shows "upper_char c \<in> set ''0123456789ABCDEF''"
proof -
  from assms have "c = CHR ''0'' \<or> c = CHR ''1'' \<or> c = CHR ''2'' \<or> c = CHR ''3'' \<or>
      c = CHR ''4'' \<or> c = CHR ''5'' \<or> c = CHR ''6'' \<or> c = CHR ''7'' \<or>
      c = CHR ''8'' \<or> c = CHR ''9'' \<or> c = CHR ''a'' \<or> c = CHR ''b'' \<or>
      c = CHR ''c'' \<or> c = CHR ''d'' \<or> c = CHR ''e'' \<or> c = CHR ''f''"
    by simp
  then show ?thesis
    by (elim disjE) (simp_all add: upper_char_def)
qed

lemma upper_hex_chars: "set (upper (hex d)) \<subseteq> set ''0123456789ABCDEF''"
  unfolding upper_def using hex_chars upper_hex_char by (auto simp del: list.set set_simps)

lemma hex_example: "hex example_digest = ''deadbeef0123456789abcdef0011223344556677''"
  by (simp add: example_digest_def hex_def hex_digit_def)

lemma sha1_text_example:
  "sha1_text example_digest = ''DEADBEEF-01234567-89ABCDEF-00112233-44556677''"
proof -
  have "length example_digest = 20" by (simp add: example_digest_def)
  from sha1_text_groups[OF this] show ?thesis
    by (simp add: hex_example upper_def upper_char_def)
qed

section \<open>Evaluation of the module\<close>

lemmas create_ca_unfold = create_ca_def Let_def create_key_eq certificate_template_eq sign_template
  mkdir_parents_exist_ok_def open_wb_write_def subprocess_run_check_def print_def public_bytes_def

lemmas example_defs = world_on_def later_world_on_def fresh_disk_def ca_disk_def half_ca_disk_def
  mismatched_ca_disk_def example_config_def is_file_def
  CA_KEY_FILENAME_def CA_CRT_FILENAME_def SERVER_KEY_FILENAME_def SERVER_CRT_FILENAME_def

lemma load_pem_private_key_Inr:
  "load_pem_private_key d = Inr k \<Longrightarrow> \<exists>fmt. d = PrivateKeyBytes k PEM fmt NoEncryption"
  by (cases d rule: load_pem_private_key.cases) auto

lemma load_pem_x509_certificate_Inr:
  "load_pem_x509_certificate d = Inr c \<Longrightarrow> d = CertificateBytes c PEM"
  by (cases d rule: load_pem_x509_certificate.cases) auto

lemmas create_certificate_unfold = create_certificate_def Let_def create_key_eq
  certificate_template_eq add_extension_def sign_template open_wb_write_def public_bytes_def
  from_issuer_public_key_def

lemma create_certificate_Inr:
  assumes "create_certificate cfg directory w = (Inr (), w')"
  shows "\<exists>ca_key fmt ca_crt n1 n2.
           lookup (fs w) (user_data_dir cfg @ [CA_KEY_FILENAME]) =
             Some (File (PrivateKeyBytes ca_key PEM fmt NoEncryption)) \<and>
           lookup (fs w) (user_data_dir cfg @ [CA_CRT_FILENAME]) =
             Some (File (CertificateBytes ca_crt PEM)) \<and>
           write_file (fs w) (directory @ [SERVER_KEY_FILENAME])
             (PrivateKeyBytes (RSAPrivateKey 65537 2048 (entropy w (draws w))) PEM
                TraditionalOpenSSL NoEncryption) = Inr n1 \<and>
           write_file n1 (directory @ [SERVER_CRT_FILENAME])
             (CertificateBytes
               \<lparr>subject = NAME cfg, issuer = subject ca_crt,
                crt_public_key = public_key (RSAPrivateKey 65537 2048 (entropy w (draws w))),
                crt_serial_number = entropy w (Suc (draws w)),
                crt_not_valid_before = clock w (Suc (ticks w)),
                crt_not_valid_after = clock w (ticks w) + timedelta_days 7,
                extensions = leaf_extensions ca_key,
                signed_by = ca_key, signature_hash_algorithm = SHA256\<rparr> PEM) = Inr n2 \<and>
           fs w' = n2"
  using assms
  by (auto simp: create_certificate_unfold read_file_lookup leaf_extensions_def
      dest!: load_pem_private_key_Inr load_pem_x509_certificate_Inr
      split: sum.splits if_splits)

section \<open>Key generation\<close>

text \<open>
  Claim C9. \<open>create_key\<close> generates an RSA key with public exponent 65537 and 2048 bits,
  writes its unencrypted PEM serialisation in the traditional format to the given
  path, replacing a file that is there, and returns the very key it generated. The
  path is one that can be written: an existing regular file, or a missing entry of an
  existing directory. Loading the written bytes gives the returned key back.
\<close>

theorem create_key_generates_and_writes:
  assumes "is_file (fs w) p \<or> (p \<noteq> [] \<and> is_dir (fs w) (butlast p) \<and> lookup (fs w) p = None)"
  shows "\<exists>key w'. create_key p w = (Inr key, w') \<and>
           key = RSAPrivateKey 65537 2048 (entropy w (draws w)) \<and>
           public_exponent key = 65537 \<and> key_size key = 2048 \<and>
           lookup (fs w') p = Some (File (private_bytes key PEM TraditionalOpenSSL NoEncryption)) \<and>
           load_pem_private_key (private_bytes key PEM TraditionalOpenSSL NoEncryption) = Inr key"
proof -
  let ?key = "RSAPrivateKey 65537 2048 (entropy w (draws w))"
  from write_file_succeeds[OF assms] obtain root
    where w: "write_file (fs w) p (PrivateKeyBytes ?key PEM TraditionalOpenSSL NoEncryption) = Inr root"
    by blast
  from write_file_lookup[OF w] w show ?thesis
    by (simp add: create_key_eq private_bytes_def)
qed

text \<open>On the disk with a lone CA key, the key file is replaced by the new key.\<close>

theorem create_key_generates_and_writes_witness:
  "fst (create_key [''data'', ''webviz'', ''ca.key''] (world_on half_ca_disk)) =
     Inr (RSAPrivateKey 65537 2048 1000) \<and>
   lookup (fs (snd (create_key [''data'', ''webviz'', ''ca.key''] (world_on half_ca_disk))))
     [''data'', ''webviz'', ''ca.key''] =
     Some (File (PrivateKeyBytes (RSAPrivateKey 65537 2048 1000) PEM TraditionalOpenSSL NoEncryption)) \<and>
   lookup half_ca_disk [''data'', ''webviz'', ''ca.key''] =
     Some (File (PrivateKeyBytes (RSAPrivateKey 65537 2048 2000) PEM TraditionalOpenSSL NoEncryption))"
  using create_key_generates_and_writes
          [of "world_on half_ca_disk" "[''data'', ''webviz'', ''ca.key'']"]
  by (auto simp: world_on_def half_ca_disk_def other_ca_key_def is_file_def private_bytes_def)

section \<open>The certificate template\<close>

text \<open>
  Claim C3. The template's \<open>not_valid_before\<close> is a reading of the clock taken while
  the template is built (the second of two), and its \<open>not_valid_after\<close> is a reading
  of the clock (the first) plus \<open>365 * 10\<close> days for a CA and plus 7 days otherwise;
  ten years are the \<open>365 * 10\<close> days of the source. So when the two readings are no
  more than a tolerance apart, the length of the validity window is within that
  tolerance of ten years, or of seven days.
\<close>

theorem certificate_template_validity:
  assumes "certificate_template subj iss pk is_ca w = (b, w')"
    and "\<bar>clock w (Suc (ticks w)) - clock w (ticks w)\<bar> \<le> tolerance"
  shows "\<exists>nb na.
           b_not_valid_before b = Some nb \<and> b_not_valid_after b = Some na \<and>
           nb = clock w (Suc (ticks w)) \<and>
           na = clock w (ticks w) + timedelta_days (if is_ca then 365 * 10 else 7) \<and>
           \<bar>(na - nb) - timedelta_days (if is_ca then 365 * 10 else 7)\<bar> \<le> tolerance"
  using assms by (auto simp: certificate_template_eq)

text \<open>
  With readings 250 microseconds apart, a CA template of the example world is valid
  for ten years less 250 microseconds.
\<close>

theorem certificate_template_validity_witness:
  "b_not_valid_before (fst (certificate_template [] [] (RSAPublicKey 65537 2048 5) True (world_on fresh_disk))) =
     Some 1793800000000250 \<and>
   b_not_valid_after (fst (certificate_template [] [] (RSAPublicKey 65537 2048 5) True (world_on fresh_disk))) =
     Some (1793800000000000 + 315360000000000) \<and>
   \<bar>(1793800000000000 + 315360000000000 - 1793800000000250) - timedelta_days 3650\<bar> \<le> (1000000 :: int)"
  using certificate_template_validity
          [of "[]" "[]" "RSAPublicKey 65537 2048 5" True "world_on fresh_disk"
              "fst (certificate_template [] [] (RSAPublicKey 65537 2048 5) True (world_on fresh_disk))"
              "snd (certificate_template [] [] (RSAPublicKey 65537 2048 5) True (world_on fresh_disk))"
              1000000]
  by (simp add: world_on_def timedelta_days_def)

text \<open>
  Claim C4. Every template, for a CA and for a leaf, carries exactly two extensions:
  the Subject Alternative Name with the single entry \<^verbatim>\<open>DNSName("localhost")\<close>, critical,
  and the Basic Constraints with the CA flag of the argument and no path length,
  critical.
\<close>

theorem certificate_template_extensions:
  "b_extensions (fst (certificate_template subj iss pk is_ca w)) =
     [\<lparr>critical = True, ext_value = SubjectAlternativeName [DNSName ''localhost'']\<rparr>,
      \<lparr>critical = True, ext_value = BasicConstraints is_ca None\<rparr>]"
  by (simp add: certificate_template_eq)

section \<open>Server certificates\<close>

text \<open>
  Claim C1. When the CA key file or the CA certificate file is not a file of the user
  data directory, \<open>create_certificate\<close> raises the \<^verbatim>\<open>RuntimeError\<close> that tells the
  operator to run the CA setup (the specification's \<^verbatim>\<open>CaNotFoundError\<close>), and the world
  is as it was: nothing is written, in the output directory or elsewhere.
\<close>

theorem create_certificate_without_ca:
  assumes "\<not> is_file (fs w) (user_data_dir cfg @ [CA_KEY_FILENAME]) \<or>
           \<not> is_file (fs w) (user_data_dir cfg @ [CA_CRT_FILENAME])"
  shows \<open>create_certificate cfg directory w =
           (Inl (RuntimeError (''Could not find CA key and certificate. Please '' @
                               ''run the command "webviz certificate --auto-install" and '' @
                               ''try again'')),
            w)\<close>
  using assms by (auto simp: create_certificate_def Let_def ca_not_found_message_def)

text \<open>A CA key without its certificate counts as no CA.\<close>

theorem create_certificate_without_ca_witness:
  "is_file half_ca_disk [''data'', ''webviz'', ''ca.key''] \<and>
   create_certificate example_config [''srv''] (world_on half_ca_disk) =
     (Inl (RuntimeError ca_not_found_message), world_on half_ca_disk)"
  using create_certificate_without_ca [of "world_on half_ca_disk" example_config "[''srv'']"]
  by (simp add: world_on_def half_ca_disk_def example_config_def is_file_def
      CA_KEY_FILENAME_def CA_CRT_FILENAME_def ca_not_found_message_def)

section \<open>Creation of the CA\<close>

text \<open>
  Claim C2. With \<open>force\<close> false and the CA certificate a file at its path,
  \<open>create_ca\<close> raises the \<^verbatim>\<open>OSError\<close> whose message names the path and asks for
  \<^verbatim>\<open>--force\<close> (the specification's \<^verbatim>\<open>AlreadyExistsError\<close>), and the world is as it
  was: neither CA file has been written.
\<close>

theorem create_ca_refuses_overwrite:
  assumes "\<not> force args"
    and "is_file (fs w) (user_data_dir cfg @ [CA_CRT_FILENAME])"
  shows "create_ca cfg args w =
           (Inl (OSError (''The file '' @ path_str (user_data_dir cfg @ [CA_CRT_FILENAME]) @
                          '' already exists. Add the command line flag --force if you want to overwrite'')),
            w)"
proof -
  from assms(2) have "is_dir (fs w) (user_data_dir cfg)"
    by (rule is_file_parent_is_dir)
  then have "mkdir (fs w) (user_data_dir cfg) = Inr (fs w)"
    by (rule mkdir_existing)
  then have "mkdir_parents_exist_ok (user_data_dir cfg) w = (Inr (), w)"
    by (simp add: mkdir_parents_exist_ok_def)
  with assms show ?thesis
    by (simp add: create_ca_def Let_def already_exists_message_def)
qed

theorem create_ca_refuses_overwrite_witness:
  "create_ca example_config \<lparr>force = False, auto_install = True\<rparr> (world_on ca_disk) =
     (Inl (OSError ''The file /data/webviz/ca.crt already exists. Add the command line flag --force if you want to overwrite''),
      world_on ca_disk)"
  using create_ca_refuses_overwrite
          [of "\<lparr>force = False, auto_install = True\<rparr>" "world_on ca_disk" example_config]
  by (simp add: world_on_def ca_disk_def example_config_def is_file_def CA_CRT_FILENAME_def
      path_str_def)



text \<open>
  Claim C7, as amended. When the trust-store tool has been started and it is denied
  permission or exits with a code other than zero, \<open>create_ca\<close> returns normally: the
  failure is caught, the warning is printed, and the instructions for the manual
  installation follow it, with the fingerprint of the CA certificate that is on the disk.
\<close>

theorem create_ca_install_failure_recovered:
  assumes run: "create_ca cfg args w = (r, w')"
    and started: "spawned w' \<noteq> spawned w"
    and failure: "subprocess w (certutil_argv cfg (user_data_dir cfg @ [CA_CRT_FILENAME])) = Raised PermissionError \<or>
                  (\<exists>rc. 0 < rc \<and> subprocess w (certutil_argv cfg (user_data_dir cfg @ [CA_CRT_FILENAME])) = Returned rc)"
  shows \<open>r = Inr () \<and>
         (\<exists>cert. lookup (fs w') (user_data_dir cfg @ [''ca.crt'']) = Some (File (public_bytes cert PEM)) \<and>
            stdout w' = stdout w @
              [RED cfg @
               ''Automatic installation of webviz certificate failed. '' @
               ''Falling back to manual installation.'' @
               END cfg,
               BLUE cfg @ BOLD cfg @ ''\<newline>'' @
               '' Created CA key and certificate files (both saved in '' @ path_str (user_data_dir cfg) @ '').\<newline>'' @
               '' Keep the key file ('' @ ''ca.key'' @ '') private. The certificate file\<newline>'' @
               '' ('' @ ''ca.crt'' @ '') is not sensitive, and you can import it in\<newline>'' @
               '' your browser(s).\<newline>'' @
               ''\<newline>'' @
               '' To install it in Chrome:\<newline>'' @
               ''\<newline>'' @
               ''    - Open Chrome and go to chrome://settings/privacy\<newline>'' @
               ''    - Select "Manage certificates"\<newline>'' @
               ''    - Under the tab "Trusted Root Certificatation Authorities", click "Import"\<newline>'' @
               ''    - Go to '' @ path_str (user_data_dir cfg) @ '' and select the created certificate ('' @ ''ca.crt'' @ '').\<newline>'' @
               ''    - Click "Next" and select "Place all certificates in the following store"\<newline>'' @
               ''    - Click "Next" and then "Finished"\<newline>'' @
               ''    - If a dialog box appears, you can verify that the displayed thumbprint is\<newline>'' @
               ''      the same as this one:\<newline>'' @
               ''       '' @ sha1_text (fingerprint cfg cert SHA1) @ ''\<newline>'' @
               ''    - Restart Chrome\<newline>'' @
               ''\<newline>'' @
               '' When done, you do not have to rerun "webviz certificate" or do this procedure\<newline>'' @
               '' before the certificate expiry date has passed. The certificate is only valid\<newline>'' @
               '' for localhost.'' @ END cfg])\<close>
proof -
  from assms have
    "r = Inr () \<and>
     (\<exists>cert. lookup (fs w') (user_data_dir cfg @ [CA_CRT_FILENAME]) = Some (File (public_bytes cert PEM)) \<and>
        stdout w' = stdout w @ [install_failed_message cfg,
           manual_instructions cfg (user_data_dir cfg) (sha1_text (fingerprint cfg cert SHA1))])"
    by (auto simp: create_ca_unfold dest: write_file_lookup
        split: sum.splits if_splits outcome.splits)
  then show ?thesis
    by (simp add: install_failed_message_def manual_instructions_def
        CA_KEY_FILENAME_def CA_CRT_FILENAME_def)
qed

text \<open>In the example world the tool exits with code 1.\<close>

theorem create_ca_install_failure_recovered_witness:
  \<open>fst (create_ca example_config \<lparr>force = False, auto_install = True\<rparr> (world_on fresh_disk)) = Inr () \<and>
   spawned (snd (create_ca example_config \<lparr>force = False, auto_install = True\<rparr> (world_on fresh_disk))) =
     [[''certutil'', ''-d'', ''sql:/home/alice/.pki/nssdb'', ''-A'', ''-t'', ''CT,C,c'', ''-n'', ''webviz'',
       ''-i'', ''/data/webviz/ca.crt'']] \<and>
   stdout (snd (create_ca example_config \<lparr>force = False, auto_install = True\<rparr> (world_on fresh_disk))) =
     [''<red>'' @
      ''Automatic installation of webviz certificate failed. '' @
      ''Falling back to manual installation.'' @
      ''<end>'',
      ''<blue>'' @ ''<bold>'' @ ''\<newline>'' @
      '' Created CA key and certificate files (both saved in '' @ ''/data/webviz'' @ '').\<newline>'' @
      '' Keep the key file ('' @ ''ca.key'' @ '') private. The certificate file\<newline>'' @
      '' ('' @ ''ca.crt'' @ '') is not sensitive, and you can import it in\<newline>'' @
      '' your browser(s).\<newline>'' @
      ''\<newline>'' @
      '' To install it in Chrome:\<newline>'' @
      ''\<newline>'' @
      ''    - Open Chrome and go to chrome://settings/privacy\<newline>'' @
      ''    - Select "Manage certificates"\<newline>'' @
      ''    - Under the tab "Trusted Root Certificatation Authorities", click "Import"\<newline>'' @
      ''    - Go to '' @ ''/data/webviz'' @ '' and select the created certificate ('' @ ''ca.crt'' @ '').\<newline>'' @
      ''    - Click "Next" and select "Place all certificates in the following store"\<newline>'' @
      ''    - Click "Next" and then "Finished"\<newline>'' @
      ''    - If a dialog box appears, you can verify that the displayed thumbprint is\<newline>'' @
      ''      the same as this one:\<newline>'' @
      ''       '' @ ''DEADBEEF-01234567-89ABCDEF-00112233-44556677'' @ ''\<newline>'' @
      ''    - Restart Chrome\<newline>'' @
      ''\<newline>'' @
      '' When done, you do not have to rerun "webviz certificate" or do this procedure\<newline>'' @
      '' before the certificate expiry date has passed. The certificate is only valid\<newline>'' @
      '' for localhost.'' @ ''<end>'']\<close>
  using create_ca_install_failure_recovered [of example_config "\<lparr>force = False, auto_install = True\<rparr>" "world_on fresh_disk"
            "fst (create_ca example_config \<lparr>force = False, auto_install = True\<rparr> (world_on fresh_disk))"
            "snd (create_ca example_config \<lparr>force = False, auto_install = True\<rparr> (world_on fresh_disk))"]
  by (simp add: create_ca_unfold example_defs certutil_argv_def path_str_def sha1_text_example
      install_failed_message_def manual_instructions_def)

text \<open>
  The handler takes nothing else: an exception of the launch that is neither of the two,
  such as \<^verbatim>\<open>FileNotFoundError\<close> for a tool that is not installed, leaves \<open>create_ca\<close>
  as it was raised, after the CA files have been written and with nothing printed.
\<close>

lemma create_ca_uncaught_launch_error:
  assumes "create_ca cfg args w = (r, w')"
    and "spawned w' \<noteq> spawned w"
    and "subprocess w (certutil_argv cfg (user_data_dir cfg @ [CA_CRT_FILENAME])) = Raised e"
    and "\<not> caught_by_install_handler e"
  shows "r = Inl e \<and> stdout w' = stdout w"
  using assms
  by (auto simp: create_ca_unfold split: sum.splits if_splits outcome.splits)

text \<open>
  Claim C7 as stated fails where the tool is not installed: the tool is started, the
  launch raises \<^verbatim>\<open>FileNotFoundError\<close>, and \<open>create_ca\<close> ends with that exception, the
  CA files written and neither the warning nor the instructions printed.
\<close>

theorem create_ca_install_failure_aborts:
  "fst (create_ca example_config \<lparr>force = False, auto_install = True\<rparr> (world_without_tool fresh_disk)) =
     Inl FileNotFoundError \<and>
   spawned (snd (create_ca example_config \<lparr>force = False, auto_install = True\<rparr> (world_without_tool fresh_disk))) =
     [[''certutil'', ''-d'', ''sql:/home/alice/.pki/nssdb'', ''-A'', ''-t'', ''CT,C,c'', ''-n'', ''webviz'',
       ''-i'', ''/data/webviz/ca.crt'']] \<and>
   fs (snd (create_ca example_config \<lparr>force = False, auto_install = True\<rparr> (world_without_tool fresh_disk))) =
     ca_disk \<and>
   stdout (snd (create_ca example_config \<lparr>force = False, auto_install = True\<rparr> (world_without_tool fresh_disk))) =
     []"
  by (simp add: create_ca_unfold example_defs world_without_tool_def certutil_argv_def path_str_def
      example_ca_key_def example_ca_crt_def public_key_def timedelta_days_def)

text \<open>
  The instructions show the fingerprint they are given, on the line after the words that
  announce it.
\<close>

lemma manual_instructions_shows:
  \<open>\<exists>pre post. manual_instructions cfg directory sha1 =
      pre @ ''      the same as this one:\<newline>       '' @ sha1 @ ''\<newline>    - Restart Chrome\<newline>'' @ post\<close>
  unfolding manual_instructions_def
  apply (rule exI[of _ \<open>BLUE cfg @ BOLD cfg @ ''\<newline>'' @
     '' Created CA key and certificate files (both saved in '' @ path_str directory @ '').\<newline>'' @
     '' Keep the key file ('' @ CA_KEY_FILENAME @ '') private. The certificate file\<newline>'' @
     '' ('' @ CA_CRT_FILENAME @ '') is not sensitive, and you can import it in\<newline>'' @
     '' your browser(s).\<newline>'' @
     ''\<newline>'' @
     '' To install it in Chrome:\<newline>'' @
     ''\<newline>'' @
     ''    - Open Chrome and go to chrome://settings/privacy\<newline>'' @
     ''    - Select "Manage certificates"\<newline>'' @
     ''    - Under the tab "Trusted Root Certificatation Authorities", click "Import"\<newline>'' @
     ''    - Go to '' @ path_str directory @ '' and select the created certificate ('' @ CA_CRT_FILENAME @ '').\<newline>'' @
     ''    - Click "Next" and select "Place all certificates in the following store"\<newline>'' @
     ''    - Click "Next" and then "Finished"\<newline>'' @
     ''    - If a dialog box appears, you can verify that the displayed thumbprint is\<newline>''\<close>])
  apply (rule exI[of _ \<open>''\<newline>'' @
     '' When done, you do not have to rerun "webviz certificate" or do this procedure\<newline>'' @
     '' before the certificate expiry date has passed. The certificate is only valid\<newline>'' @
     '' for localhost.'' @ END cfg\<close>])
  apply simp
  done

text \<open>
  Claim C8. When \<open>create_ca\<close> returns without having installed the certificate, the
  last text it prints is the instructions, and they show the fingerprint of the
  certificate it wrote: the SHA-1 digest in hexadecimal, 40 characters, in upper case,
  as five groups of eight joined by hyphens. That SHA-1 digests have 20 bytes is a
  property of the digest, taken as a hypothesis.
\<close>

theorem create_ca_fingerprint_format:
  assumes run: "create_ca cfg args w = (Inr (), w')"
    and not_installed: "\<not> auto_install args \<or>
          subprocess w (certutil_argv cfg (user_data_dir cfg @ [CA_CRT_FILENAME])) \<noteq> Returned 0"
    and sha1_len: "\<forall>c. length (fingerprint cfg c SHA1) = 20"
  shows \<open>\<exists>cert digest.
           lookup (fs w') (user_data_dir cfg @ [CA_CRT_FILENAME]) = Some (File (public_bytes cert PEM)) \<and>
           digest = fingerprint cfg cert SHA1 \<and>
           last (stdout w') = manual_instructions cfg (user_data_dir cfg) (sha1_text digest) \<and>
           last (stdout w') =
             BLUE cfg @ BOLD cfg @ ''\<newline>'' @
             '' Created CA key and certificate files (both saved in '' @ path_str (user_data_dir cfg) @ '').\<newline>'' @
             '' Keep the key file ('' @ ''ca.key'' @ '') private. The certificate file\<newline>'' @
             '' ('' @ ''ca.crt'' @ '') is not sensitive, and you can import it in\<newline>'' @
             '' your browser(s).\<newline>'' @
             ''\<newline>'' @
             '' To install it in Chrome:\<newline>'' @
             ''\<newline>'' @
             ''    - Open Chrome and go to chrome://settings/privacy\<newline>'' @
             ''    - Select "Manage certificates"\<newline>'' @
             ''    - Under the tab "Trusted Root Certificatation Authorities", click "Import"\<newline>'' @
             ''    - Go to '' @ path_str (user_data_dir cfg) @ '' and select the created certificate ('' @ ''ca.crt'' @ '').\<newline>'' @
             ''    - Click "Next" and select "Place all certificates in the following store"\<newline>'' @
             ''    - Click "Next" and then "Finished"\<newline>'' @
             ''    - If a dialog box appears, you can verify that the displayed thumbprint is\<newline>'' @
             ''      the same as this one:\<newline>'' @
             ''       '' @ sha1_text digest @ ''\<newline>'' @
             ''    - Restart Chrome\<newline>'' @
             ''\<newline>'' @
             '' When done, you do not have to rerun "webviz certificate" or do this procedure\<newline>'' @
             '' before the certificate expiry date has passed. The certificate is only valid\<newline>'' @
             '' for localhost.'' @ END cfg \<and>
           (\<exists>pre post. last (stdout w') =
              pre @ ''      the same as this one:\<newline>       '' @ sha1_text digest @
              ''\<newline>    - Restart Chrome\<newline>'' @ post) \<and>
           sha1_text digest =
             upper (take 8 (hex digest)) @ ''-'' @ upper (take 8 (drop 8 (hex digest))) @ ''-'' @
             upper (take 8 (drop 16 (hex digest))) @ ''-'' @ upper (take 8 (drop 24 (hex digest))) @ ''-'' @
             upper (take 8 (drop 32 (hex digest))) \<and>
           length (hex digest) = 40 \<and>
           set (upper (hex digest)) \<subseteq> set ''0123456789ABCDEF''\<close>
proof -
  from run not_installed obtain cert where
    crt: "lookup (fs w') (user_data_dir cfg @ [CA_CRT_FILENAME]) = Some (File (public_bytes cert PEM))"
    and out: "last (stdout w') =
      manual_instructions cfg (user_data_dir cfg) (sha1_text (fingerprint cfg cert SHA1))"
    by (auto simp: create_ca_unfold dest: write_file_lookup
        split: sum.splits if_splits outcome.splits)
  let ?d = "fingerprint cfg cert SHA1"
  from sha1_len have len: "length ?d = 20" by simp
  have printed: \<open>last (stdout w') =
             BLUE cfg @ BOLD cfg @ ''\<newline>'' @
             '' Created CA key and certificate files (both saved in '' @ path_str (user_data_dir cfg) @ '').\<newline>'' @
             '' Keep the key file ('' @ ''ca.key'' @ '') private. The certificate file\<newline>'' @
             '' ('' @ ''ca.crt'' @ '') is not sensitive, and you can import it in\<newline>'' @
             '' your browser(s).\<newline>'' @
             ''\<newline>'' @
             '' To install it in Chrome:\<newline>'' @
             ''\<newline>'' @
             ''    - Open Chrome and go to chrome://settings/privacy\<newline>'' @
             ''    - Select "Manage certificates"\<newline>'' @
             ''    - Under the tab "Trusted Root Certificatation Authorities", click "Import"\<newline>'' @
             ''    - Go to '' @ path_str (user_data_dir cfg) @ '' and select the created certificate ('' @ ''ca.crt'' @ '').\<newline>'' @
             ''    - Click "Next" and select "Place all certificates in the following store"\<newline>'' @
             ''    - Click "Next" and then "Finished"\<newline>'' @
             ''    - If a dialog box appears, you can verify that the displayed thumbprint is\<newline>'' @
             ''      the same as this one:\<newline>'' @
             ''       '' @ sha1_text ?d @ ''\<newline>'' @
             ''    - Restart Chrome\<newline>'' @
             ''\<newline>'' @
             '' When done, you do not have to rerun "webviz certificate" or do this procedure\<newline>'' @
             '' before the certificate expiry date has passed. The certificate is only valid\<newline>'' @
             '' for localhost.'' @ END cfg\<close>
    unfolding out
    by (simp add: manual_instructions_def CA_KEY_FILENAME_def CA_CRT_FILENAME_def)
  have shown: \<open>\<exists>pre post. last (stdout w') =
              pre @ ''      the same as this one:\<newline>       '' @ sha1_text ?d @
              ''\<newline>    - Restart Chrome\<newline>'' @ post\<close>
    unfolding out by (rule manual_instructions_shows)
  have g: "sha1_text ?d =
             upper (take 8 (hex ?d)) @ ''-'' @ upper (take 8 (drop 8 (hex ?d))) @ ''-'' @
             upper (take 8 (drop 16 (hex ?d))) @ ''-'' @ upper (take 8 (drop 24 (hex ?d))) @ ''-'' @
             upper (take 8 (drop 32 (hex ?d)))"
    by (rule sha1_text_groups[OF len])
  have l: "length (hex ?d) = 40" using len by (simp add: hex_length)
  have u: "set (upper (hex ?d)) \<subseteq> set ''0123456789ABCDEF''" by (rule upper_hex_chars)
  show ?thesis
    apply (rule exI[of _ cert])
    apply (rule exI[of _ ?d])
    apply (intro conjI)
           apply (rule crt)
          apply (rule refl)
         apply (rule out)
        apply (rule printed)
       apply (rule shown)
      apply (rule g)
     apply (rule l)
    apply (rule u)
    done
qed

text \<open>On the fresh disk, with no installation asked for.\<close>

theorem create_ca_fingerprint_format_witness:
  \<open>fst (create_ca example_config \<lparr>force = False, auto_install = False\<rparr> (world_on fresh_disk)) = Inr () \<and>
   fs (snd (create_ca example_config \<lparr>force = False, auto_install = False\<rparr> (world_on fresh_disk))) = ca_disk \<and>
   sha1_text (fingerprint example_config example_ca_crt SHA1) =
     ''DEADBEEF-01234567-89ABCDEF-00112233-44556677'' \<and>
   stdout (snd (create_ca example_config \<lparr>force = False, auto_install = False\<rparr> (world_on fresh_disk))) =
     [''<blue>'' @ ''<bold>'' @ ''\<newline>'' @
      '' Created CA key and certificate files (both saved in '' @ ''/data/webviz'' @ '').\<newline>'' @
      '' Keep the key file ('' @ ''ca.key'' @ '') private. The certificate file\<newline>'' @
      '' ('' @ ''ca.crt'' @ '') is not sensitive, and you can import it in\<newline>'' @
      '' your browser(s).\<newline>'' @
      ''\<newline>'' @
      '' To install it in Chrome:\<newline>'' @
      ''\<newline>'' @
      ''    - Open Chrome and go to chrome://settings/privacy\<newline>'' @
      ''    - Select "Manage certificates"\<newline>'' @
      ''    - Under the tab "Trusted Root Certificatation Authorities", click "Import"\<newline>'' @
      ''    - Go to '' @ ''/data/webviz'' @ '' and select the created certificate ('' @ ''ca.crt'' @ '').\<newline>'' @
      ''    - Click "Next" and select "Place all certificates in the following store"\<newline>'' @
      ''    - Click "Next" and then "Finished"\<newline>'' @
      ''    - If a dialog box appears, you can verify that the displayed thumbprint is\<newline>'' @
      ''      the same as this one:\<newline>'' @
      ''       '' @ ''DEADBEEF-01234567-89ABCDEF-00112233-44556677'' @ ''\<newline>'' @
      ''    - Restart Chrome\<newline>'' @
      ''\<newline>'' @
      '' When done, you do not have to rerun "webviz certificate" or do this procedure\<newline>'' @
      '' before the certificate expiry date has passed. The certificate is only valid\<newline>'' @
      '' for localhost.'' @ ''<end>'']\<close>
  using create_ca_fingerprint_format [of example_config "\<lparr>force = False, auto_install = False\<rparr>" "world_on fresh_disk"
            "snd (create_ca example_config \<lparr>force = False, auto_install = False\<rparr> (world_on fresh_disk))"]
  by (simp add: create_ca_unfold example_defs sha1_text_example example_ca_key_def
      example_ca_crt_def public_key_def timedelta_days_def manual_instructions_def path_str_def)

section \<open>Issued server certificates\<close>

text \<open>
  Claim C5. A server certificate that \<open>create_certificate\<close> has written carries, after
  the two extensions of the template, a critical Key Usage with digital signature, key
  encipherment and content commitment set and every other flag clear, and a
  non-critical Authority Key Identifier derived from the public key of the CA key that
  was loaded from the disk. They are part of what that CA key signed.
\<close>

theorem create_certificate_extensions:
  assumes "create_certificate cfg directory w = (Inr (), w')"
  shows "\<exists>ca_key fmt crt.
           lookup (fs w) (user_data_dir cfg @ [CA_KEY_FILENAME]) =
             Some (File (PrivateKeyBytes ca_key PEM fmt NoEncryption)) \<and>
           lookup (fs w') (directory @ [SERVER_CRT_FILENAME]) = Some (File (public_bytes crt PEM)) \<and>
           signed_by crt = ca_key \<and>
           extensions crt =
             [\<lparr>critical = True, ext_value = SubjectAlternativeName [DNSName ''localhost'']\<rparr>,
              \<lparr>critical = True, ext_value = BasicConstraints False None\<rparr>,
              \<lparr>critical = True,
               ext_value = KeyUsage
                 \<lparr>digital_signature = True, content_commitment = True, key_encipherment = True,
                  data_encipherment = False, key_agreement = False, key_cert_sign = False,
                  crl_sign = False, encipher_only = False, decipher_only = False\<rparr>\<rparr>,
              \<lparr>critical = False, ext_value = from_issuer_public_key (public_key ca_key)\<rparr>]"
proof -
  let ?sk = "RSAPrivateKey 65537 2048 (entropy w (draws w))"
  from create_certificate_Inr[OF assms] obtain ca_key fmt ca_crt n1 n2 crt where
    key: "lookup (fs w) (user_data_dir cfg @ [CA_KEY_FILENAME]) =
            Some (File (PrivateKeyBytes ca_key PEM fmt NoEncryption))"
    and cac: "lookup (fs w) (user_data_dir cfg @ [CA_CRT_FILENAME]) =
            Some (File (CertificateBytes ca_crt PEM))"
    and w1: "write_file (fs w) (directory @ [SERVER_KEY_FILENAME])
               (PrivateKeyBytes ?sk PEM TraditionalOpenSSL NoEncryption) = Inr n1"
    and crt: "crt = \<lparr>subject = NAME cfg, issuer = subject ca_crt,
                crt_public_key = public_key ?sk,
                crt_serial_number = entropy w (Suc (draws w)),
                crt_not_valid_before = clock w (Suc (ticks w)),
                crt_not_valid_after = clock w (ticks w) + timedelta_days 7,
                extensions = leaf_extensions ca_key,
                signed_by = ca_key, signature_hash_algorithm = SHA256\<rparr>"
    and w2: "write_file n1 (directory @ [SERVER_CRT_FILENAME]) (CertificateBytes crt PEM) = Inr n2"
    and fs: "fs w' = n2"
    by blast
  have sc: "lookup (fs w') (directory @ [SERVER_CRT_FILENAME]) = Some (File (public_bytes crt PEM))"
    using write_file_lookup[OF w2] fs by (simp add: public_bytes_def)
  have sb: "signed_by crt = ca_key" by (simp add: crt)
  have ex: "extensions crt =
             [\<lparr>critical = True, ext_value = SubjectAlternativeName [DNSName ''localhost'']\<rparr>,
              \<lparr>critical = True, ext_value = BasicConstraints False None\<rparr>,
              \<lparr>critical = True,
               ext_value = KeyUsage
                 \<lparr>digital_signature = True, content_commitment = True, key_encipherment = True,
                  data_encipherment = False, key_agreement = False, key_cert_sign = False,
                  crl_sign = False, encipher_only = False, decipher_only = False\<rparr>\<rparr>,
              \<lparr>critical = False, ext_value = from_issuer_public_key (public_key ca_key)\<rparr>]"
    by (simp add: crt leaf_extensions_def from_issuer_public_key_def)
  show ?thesis
    apply (rule exI[of _ ca_key])
    apply (rule exI[of _ fmt])
    apply (rule exI[of _ crt])
    apply (intro conjI)
       apply (rule key)
      apply (rule sc)
     apply (rule sb)
    apply (rule ex)
    done
qed

theorem create_certificate_extensions_witness:
  "fst (create_certificate example_config [''srv''] (later_world_on ca_disk)) = Inr () \<and>
   lookup (fs (snd (create_certificate example_config [''srv''] (later_world_on ca_disk))))
     [''srv'', ''server.crt''] = Some (File (CertificateBytes (example_leaf example_ca_key) PEM)) \<and>
   extensions (example_leaf example_ca_key) =
     [\<lparr>critical = True, ext_value = SubjectAlternativeName [DNSName ''localhost'']\<rparr>,
      \<lparr>critical = True, ext_value = BasicConstraints False None\<rparr>,
      \<lparr>critical = True,
       ext_value = KeyUsage
         \<lparr>digital_signature = True, content_commitment = True, key_encipherment = True,
          data_encipherment = False, key_agreement = False, key_cert_sign = False,
          crl_sign = False, encipher_only = False, decipher_only = False\<rparr>\<rparr>,
      \<lparr>critical = False, ext_value = AuthorityKeyIdentifier (RSAPublicKey 65537 2048 1000)\<rparr>]"
  using create_certificate_extensions [of example_config "[''srv'']" "later_world_on ca_disk"
              "snd (create_certificate example_config [''srv''] (later_world_on ca_disk))"]
  by (simp add: create_certificate_unfold example_defs example_leaf_def leaf_extensions_def
      example_ca_key_def example_ca_crt_def public_key_def)

text \<open>
  Claim C6, as amended. A server certificate that \<open>create_certificate\<close> has written is a
  leaf (Basic Constraints with the CA flag false), its subject is the static name, its
  issuer is the subject of the CA certificate loaded from the disk, its public key is
  that of the server key generated in this call and written beside it, and it is signed
  with the CA key loaded from the disk, with SHA-256. It validates against the loaded CA
  certificate exactly when the public key of that certificate is the public key of the
  loaded CA key: \<open>create_certificate\<close> loads the two files independently and does not
  compare them.
\<close>

theorem create_certificate_chain:
  assumes "create_certificate cfg directory w = (Inr (), w')"
  shows "\<exists>ca_key fmt ca_crt server_key crt.
           lookup (fs w) (user_data_dir cfg @ [CA_KEY_FILENAME]) =
             Some (File (PrivateKeyBytes ca_key PEM fmt NoEncryption)) \<and>
           lookup (fs w) (user_data_dir cfg @ [CA_CRT_FILENAME]) =
             Some (File (CertificateBytes ca_crt PEM)) \<and>
           server_key = RSAPrivateKey 65537 2048 (entropy w (draws w)) \<and>
           lookup (fs w') (directory @ [SERVER_KEY_FILENAME]) =
             Some (File (private_bytes server_key PEM TraditionalOpenSSL NoEncryption)) \<and>
           lookup (fs w') (directory @ [SERVER_CRT_FILENAME]) = Some (File (public_bytes crt PEM)) \<and>
           \<lparr>critical = True, ext_value = BasicConstraints False None\<rparr> \<in> set (extensions crt) \<and>
           subject crt = NAME cfg \<and>
           issuer crt = subject ca_crt \<and>
           crt_public_key crt = public_key server_key \<and>
           signed_by crt = ca_key \<and>
           signature_hash_algorithm crt = SHA256 \<and>
           validates_against crt ca_crt = (crt_public_key ca_crt = public_key ca_key)"
proof -
  let ?sk = "RSAPrivateKey 65537 2048 (entropy w (draws w))"
  from create_certificate_Inr[OF assms] obtain ca_key fmt ca_crt n1 n2 crt where
    key: "lookup (fs w) (user_data_dir cfg @ [CA_KEY_FILENAME]) =
            Some (File (PrivateKeyBytes ca_key PEM fmt NoEncryption))"
    and cac: "lookup (fs w) (user_data_dir cfg @ [CA_CRT_FILENAME]) =
            Some (File (CertificateBytes ca_crt PEM))"
    and w1: "write_file (fs w) (directory @ [SERVER_KEY_FILENAME])
               (PrivateKeyBytes ?sk PEM TraditionalOpenSSL NoEncryption) = Inr n1"
    and crt: "crt = \<lparr>subject = NAME cfg, issuer = subject ca_crt,
                crt_public_key = public_key ?sk,
                crt_serial_number = entropy w (Suc (draws w)),
                crt_not_valid_before = clock w (Suc (ticks w)),
                crt_not_valid_after = clock w (ticks w) + timedelta_days 7,
                extensions = leaf_extensions ca_key,
                signed_by = ca_key, signature_hash_algorithm = SHA256\<rparr>"
    and w2: "write_file n1 (directory @ [SERVER_CRT_FILENAME]) (CertificateBytes crt PEM) = Inr n2"
    and fs: "fs w' = n2"
    by blast
  have ne: "directory @ [SERVER_KEY_FILENAME] \<noteq> directory @ [SERVER_CRT_FILENAME]"
    by (simp add: SERVER_KEY_FILENAME_def SERVER_CRT_FILENAME_def)
  have sk: "lookup (fs w') (directory @ [SERVER_KEY_FILENAME]) =
             Some (File (private_bytes ?sk PEM TraditionalOpenSSL NoEncryption))"
    using write_file_other_files[OF w2 ne] write_file_lookup[OF w1] fs
    by (simp add: private_bytes_def)
  have sc: "lookup (fs w') (directory @ [SERVER_CRT_FILENAME]) = Some (File (public_bytes crt PEM))"
    using write_file_lookup[OF w2] fs by (simp add: public_bytes_def)
  have bc: "\<lparr>critical = True, ext_value = BasicConstraints False None\<rparr> \<in> set (extensions crt)"
    by (simp add: crt leaf_extensions_def)
  have flds: "subject crt = NAME cfg" "issuer crt = subject ca_crt"
    "crt_public_key crt = public_key ?sk" "signed_by crt = ca_key"
    "signature_hash_algorithm crt = SHA256"
    by (simp_all add: crt)
  have va: "validates_against crt ca_crt = (crt_public_key ca_crt = public_key ca_key)"
    by (auto simp: validates_against_def verify_signature_def crt)
  show ?thesis
    apply (rule exI[of _ ca_key])
    apply (rule exI[of _ fmt])
    apply (rule exI[of _ ca_crt])
    apply (rule exI[of _ ?sk])
    apply (rule exI[of _ crt])
    using key cac sk sc bc flds va apply simp
    done
qed

text \<open>With the CA that \<open>create_ca\<close> wrote, the issued certificate validates.\<close>

theorem create_certificate_chain_witness:
  "fst (create_certificate example_config [''srv''] (later_world_on ca_disk)) = Inr () \<and>
   lookup (fs (snd (create_certificate example_config [''srv''] (later_world_on ca_disk))))
     [''srv'', ''server.crt''] = Some (File (CertificateBytes (example_leaf example_ca_key) PEM)) \<and>
   lookup (fs (snd (create_certificate example_config [''srv''] (later_world_on ca_disk))))
     [''srv'', ''server.key''] =
     Some (File (PrivateKeyBytes (RSAPrivateKey 65537 2048 1002) PEM TraditionalOpenSSL NoEncryption)) \<and>
   validates_against (example_leaf example_ca_key) example_ca_crt"
  using create_certificate_chain [of example_config "[''srv'']" "later_world_on ca_disk"
              "snd (create_certificate example_config [''srv''] (later_world_on ca_disk))"]
  by (simp add: create_certificate_unfold example_defs example_leaf_def leaf_extensions_def
      example_ca_key_def example_ca_crt_def public_key_def validates_against_def
      verify_signature_def)

text \<open>
  Claim C6 as stated fails on a disk whose CA key is not the key of the CA certificate
  beside it: a server certificate is issued, its issuer is the subject of the CA
  certificate, and its signature does not verify with the public key of that
  certificate.
\<close>

theorem create_certificate_chain_mismatch:
  "fst (create_certificate example_config [''srv''] (later_world_on mismatched_ca_disk)) = Inr () \<and>
   lookup (fs (later_world_on mismatched_ca_disk)) [''data'', ''webviz'', ''ca.crt''] =
     Some (File (CertificateBytes example_ca_crt PEM)) \<and>
   lookup (fs (snd (create_certificate example_config [''srv''] (later_world_on mismatched_ca_disk))))
     [''srv'', ''server.crt''] = Some (File (CertificateBytes (example_leaf other_ca_key) PEM)) \<and>
   issuer (example_leaf other_ca_key) = subject example_ca_crt \<and>
   \<not> validates_against (example_leaf other_ca_key) example_ca_crt"
  by (simp add: create_certificate_unfold example_defs example_leaf_def leaf_extensions_def
      example_ca_key_def other_ca_key_def example_ca_crt_def public_key_def validates_against_def
      verify_signature_def)

end
